theory Spec2Isabelle
  imports Main "HOL-Library.Sublist"
begin

section \<open>JavaScript values and control flow\<close>

text \<open>
  A value that the program can throw or reject a promise with: \<open>Error m\<close> is the object
  built by \<^verbatim>\<open>new Error(m)\<close>, \<open>Other e\<close> is any other value, of a type \<open>'e\<close> chosen
  by the transport.
\<close>

datatype 'e exn = Error string | Other 'e

text \<open>
  How the evaluation of a call ends: it returns a value, or it throws synchronously.
\<close>

datatype ('x, 'a) completion = Normal 'a | Throw 'x

text \<open>
  A promise, read by what becomes of it: it is fulfilled with a response, rejected with a
  reason, or never settled.
\<close>

datatype ('x, 'r) promise = Pending | Fulfilled 'r | Rejected 'x

text \<open>
  The argument \<^verbatim>\<open>incidentId\<close> is declared a \<^verbatim>\<open>string\<close>; a caller may
  leave it out, which is \<open>None\<close>. The argument \<^verbatim>\<open>params\<close> is optional in the same way,
  and its content, of type \<open>'p\<close>, is opaque to the class.
\<close>

text \<open>The operator \<^verbatim>\<open>!\<close> on such an argument: a missing and an empty string are falsy.\<close>

fun js_not :: "string option \<Rightarrow> bool" where
  "js_not None = True"
| "js_not (Some s) = (s = [])"

text \<open>A placeholder \<^verbatim>\<open>${x}\<close> of a template literal.\<close>

fun js_to_string :: "string option \<Rightarrow> string" where
  "js_to_string None = ''undefined''"
| "js_to_string (Some s) = s"

section \<open>The transport\<close>

text \<open>The object literal \<^verbatim>\<open>{ params }\<close>: one property, which holds the argument as it is.\<close>

record 'p options =
  params :: "'p option"

text \<open>
  One invocation of the transport's \<^verbatim>\<open>get\<close>: the path, and the second argument when
  there is one.
\<close>

record 'p invocation =
  path :: string
  opts :: "'p options option"

text \<open>
  The transport's \<^verbatim>\<open>get(path, options)\<close> lies outside the class. It is a parameter:
  any function of the two arguments and of a state \<open>'s\<close> of its own (the network, its
  configuration), which returns a promise or throws, and leaves a new state.
\<close>

type_synonym ('p, 'e, 'r, 's) http_get =
  "string \<Rightarrow> 'p options option \<Rightarrow> 's \<Rightarrow> ('e exn, ('e exn, 'r) promise) completion \<times> 's"

text \<open>
  Modelled from the spec: the class \<^verbatim>\<open>Base\<close> of \<^verbatim>\<open>../../base.js\<close>, which
  \<^verbatim>\<open>Incidents\<close> extends, is missing. The spec says that the component holds no fields
  besides a reference to the transport, of which it needs the single operation
  \<^verbatim>\<open>get\<close>; the field \<open>http\<close> stands for \<^verbatim>\<open>this.http.get\<close>.
\<close>

record ('p, 'e, 'r, 's) base =
  http :: "('p, 'e, 'r, 's) http_get"

text \<open>
  The world an operation runs in: the component itself (\<^verbatim>\<open>this\<close>), the invocations of
  the transport made so far, oldest first, and the transport's state.
\<close>

record ('p, 'e, 'r, 's) world =
  self :: "('p, 'e, 'r, 's) base"
  trace :: "'p invocation list"
  net :: 's

type_synonym ('p, 'e, 'r, 's) operation =
  "('p, 'e, 'r, 's) world \<Rightarrow>
     ('e exn, ('e exn, 'r) promise) completion \<times> ('p, 'e, 'r, 's) world"

text \<open>
  The call \<^verbatim>\<open>this.http.get(path, options)\<close>: the transport runs on its state, and the
  invocation is appended to the trace.
\<close>

definition http_get :: "string \<Rightarrow> 'p options option \<Rightarrow> ('p, 'e, 'r, 's) operation" where
  "http_get pth os w =
     (case http (self w) pth os (net w) of
        (res, n) \<Rightarrow> (res, w\<lparr>trace := trace w @ [\<lparr>path = pth, opts = os\<rparr>], net := n\<rparr>))"

section \<open>The class Incidents\<close>

definition PATH :: string where
  "PATH = ''/data/v1/incidents''"

definition list :: "'p option \<Rightarrow> ('p, 'e, 'r, 's) operation" where
  "list ps w = http_get PATH (Some \<lparr>params = ps\<rparr>) w"

definition get :: "string option \<Rightarrow> ('p, 'e, 'r, 's) operation" where
  "get incidentId w =
     (if js_not incidentId
      then (Throw (Error ''An incident id is required for incident details.''), w)
      else http_get (PATH @ ''/'' @ js_to_string incidentId) None w)"

definition related :: "string option \<Rightarrow> 'p option \<Rightarrow> ('p, 'e, 'r, 's) operation" where
  "related incidentId ps w =
     (if js_not incidentId
      then (Throw (Error ''An incident id is required for related incidents.''), w)
      else http_get (PATH @ ''/'' @ js_to_string incidentId @ ''/related'') (Some \<lparr>params = ps\<rparr>) w)"

section \<open>A transport to run the operations on\<close>

text \<open>
  A transport whose state counts the calls it has received. It fulfils the first call with
  an echo of the request, rejects the second one, and throws from then on.
\<close>

type_synonym query = "(string \<times> string) list"

definition stub :: "(query, nat, string \<times> query options option, nat) http_get" where
  "stub pth os n =
     (if n = 0 then (Normal (Fulfilled (pth, os)), 1)
      else if n = 1 then (Normal (Rejected (Other 503)), 2)
      else (Throw (Error ''socket hang up''), Suc n))"

definition world0 :: "(query, nat, string \<times> query options option, nat) world" where
  "world0 = \<lparr>self = \<lparr>http = stub\<rparr>, trace = [], net = 0\<rparr>"

section \<open>What one call of the transport does to the world\<close>

lemma http_get_result: "fst (http_get pth os w) = fst (http (self w) pth os (net w))"
  by (simp add: http_get_def split: prod.split)

lemma http_get_trace: "trace (snd (http_get pth os w)) = trace w @ [\<lparr>path = pth, opts = os\<rparr>]"
  by (simp add: http_get_def split: prod.split)

lemma http_get_net: "net (snd (http_get pth os w)) = snd (http (self w) pth os (net w))"
  by (simp add: http_get_def split: prod.split)

lemma http_get_self: "self (snd (http_get pth os w)) = self w"
  by (simp add: http_get_def split: prod.split)

section \<open>The three operations as calls of the transport\<close>

lemma js_not_iff: "js_not i \<longleftrightarrow> i = None \<or> i = Some []"
  by (cases i) simp_all

lemma list_delegates: "list ps w = http_get ''/data/v1/incidents'' (Some \<lparr>params = ps\<rparr>) w"
  by (simp add: list_def PATH_def)

lemma get_delegates:
  "incidentId \<noteq> [] \<Longrightarrow>
   get (Some incidentId) w = http_get (''/data/v1/incidents/'' @ incidentId) None w"
  by (simp add: get_def PATH_def)

lemma related_delegates:
  "incidentId \<noteq> [] \<Longrightarrow>
   related (Some incidentId) ps w
     = http_get (''/data/v1/incidents/'' @ incidentId @ ''/related'') (Some \<lparr>params = ps\<rparr>) w"
  by (simp add: related_def PATH_def)

lemma get_invalid:
  "js_not incidentId \<Longrightarrow>
   get incidentId w = (Throw (Error ''An incident id is required for incident details.''), w)"
  by (simp add: get_def)

lemma related_invalid:
  "js_not incidentId \<Longrightarrow>
   related incidentId ps w = (Throw (Error ''An incident id is required for related incidents.''), w)"
  by (simp add: related_def)

section \<open>Validation of the identifier\<close>

text \<open>
  C1. For an empty or missing \<open>incidentId\<close>, both \<open>get\<close> and \<open>related\<close> throw
  synchronously (the call itself throws; no promise is returned) the error built in the
  source, and leave the world as it was: the trace has no new invocation, and the
  transport's state is untouched.
\<close>

theorem invalid_id_throws_before_transport:
  assumes "incidentId = None \<or> incidentId = Some []"
  shows "get incidentId w = (Throw (Error ''An incident id is required for incident details.''), w)
       \<and> related incidentId ps w
           = (Throw (Error ''An incident id is required for related incidents.''), w)
       \<and> trace (snd (get incidentId w)) = trace w
       \<and> trace (snd (related incidentId ps w)) = trace w"
proof -
  from assms have "js_not incidentId"
    by (simp add: js_not_iff)
  then show ?thesis
    by (simp add: get_invalid related_invalid)
qed

theorem invalid_id_throws_before_transport_witness:
  "(Some [] = (None :: string option) \<or> Some [] = Some ([] :: string))
   \<and> get (Some []) world0
       = (Throw (Error ''An incident id is required for incident details.''), world0)
   \<and> related (Some []) (Some [(''measurement'', ''median'')]) world0
       = (Throw (Error ''An incident id is required for related incidents.''), world0)
   \<and> get None world0
       = (Throw (Error ''An incident id is required for incident details.''), world0)
   \<and> related None None world0
       = (Throw (Error ''An incident id is required for related incidents.''), world0)
   \<and> trace (snd (get (Some []) world0)) = trace world0
   \<and> trace (snd (related (Some []) (Some [(''measurement'', ''median'')]) world0)) = trace world0"
  using
    invalid_id_throws_before_transport [of "Some []" world0 "Some [(''measurement'', ''median'')]"]
    invalid_id_throws_before_transport [of None world0 None]
  by simp

section \<open>The invocations that the operations issue\<close>

text \<open>
  C2. For a non-empty \<open>incidentId\<close>, \<open>get\<close> extends the trace by exactly one invocation,
  whose path is \<open>/data/v1/incidents/\<close> followed by the identifier, and which has no second
  argument, hence no query parameters.
\<close>

theorem get_issues_one_call:
  assumes "incidentId \<noteq> []"
  shows "trace (snd (get (Some incidentId) w))
           = trace w @ [\<lparr>path = ''/data/v1/incidents/'' @ incidentId, opts = None\<rparr>]"
  using assms by (simp add: get_delegates http_get_trace)

theorem get_issues_one_call_witness:
  "''ABCD1234'' \<noteq> []
   \<and> trace (snd (get (Some ''ABCD1234'') world0))
       = [\<lparr>path = ''/data/v1/incidents/ABCD1234'', opts = None\<rparr>]"
  using get_issues_one_call [of "''ABCD1234''" world0] by (simp add: world0_def)

text \<open>
  C3. For a non-empty \<open>incidentId\<close> and any \<open>params\<close> (given or not), \<open>related\<close> extends
  the trace by exactly one invocation, whose path is \<open>/data/v1/incidents/\<close>, the identifier
  and \<open>/related\<close>, and whose options hold the \<open>params\<close> argument as it was passed.
\<close>

theorem related_issues_one_call:
  assumes "incidentId \<noteq> []"
  shows "trace (snd (related (Some incidentId) ps w))
           = trace w @ [\<lparr>path = ''/data/v1/incidents/'' @ incidentId @ ''/related'',
                          opts = Some \<lparr>params = ps\<rparr>\<rparr>]"
  using assms by (simp add: related_delegates http_get_trace)

theorem related_issues_one_call_witness:
  "''ABCD1234'' \<noteq> []
   \<and> trace (snd (related (Some ''ABCD1234'') (Some [(''measurement'', ''median'')]) world0))
       = [\<lparr>path = ''/data/v1/incidents/ABCD1234/related'',
            opts = Some \<lparr>params = Some [(''measurement'', ''median'')]\<rparr>\<rparr>]"
  using related_issues_one_call [of "''ABCD1234''" "Some [(''measurement'', ''median'')]" world0]
  by (simp add: world0_def)

text \<open>
  C4. For every \<open>params\<close> argument, given or not, \<open>list\<close> checks nothing: it is the call of
  the transport, it extends the trace by one invocation of the path \<open>/data/v1/incidents\<close>
  whose options hold the argument as it was passed, and with no argument the options hold
  an undefined \<open>params\<close>.
\<close>

theorem list_passes_params_through:
  "list ps w = http_get ''/data/v1/incidents'' (Some \<lparr>params = ps\<rparr>) w
   \<and> trace (snd (list ps w))
       = trace w @ [\<lparr>path = ''/data/v1/incidents'', opts = Some \<lparr>params = ps\<rparr>\<rparr>]
   \<and> trace (snd (list None w))
       = trace w @ [\<lparr>path = ''/data/v1/incidents'', opts = Some \<lparr>params = None\<rparr>\<rparr>]"
  by (simp add: list_delegates http_get_trace)

theorem list_passes_params_through_witness:
  "trace (snd (list (Some [(''status'', ''open'')]) world0))
     = [\<lparr>path = ''/data/v1/incidents'', opts = Some \<lparr>params = Some [(''status'', ''open'')]\<rparr>\<rparr>]
   \<and> trace (snd (list None world0))
       = [\<lparr>path = ''/data/v1/incidents'', opts = Some \<lparr>params = None\<rparr>\<rparr>]"
  using list_passes_params_through [of "Some [(''status'', ''open'')]" world0]
  by (simp add: world0_def http_get_trace)

text \<open>
  C5. When the transport, called with the operation's path and options in the current
  state, returns a promise fulfilled with \<open>X\<close>, then \<open>list\<close>, \<open>get\<close> and \<open>related\<close> (the
  last two with a non-empty identifier) return a promise fulfilled with that same \<open>X\<close>.
\<close>

theorem operations_return_transport_result:
  assumes "incidentId \<noteq> []"
  shows "(fst (http (self w) ''/data/v1/incidents'' (Some \<lparr>params = ps\<rparr>) (net w))
            = Normal (Fulfilled X)
          \<longrightarrow> fst (list ps w) = Normal (Fulfilled X))
       \<and> (fst (http (self w) (''/data/v1/incidents/'' @ incidentId) None (net w))
            = Normal (Fulfilled Y)
          \<longrightarrow> fst (get (Some incidentId) w) = Normal (Fulfilled Y))
       \<and> (fst (http (self w) (''/data/v1/incidents/'' @ incidentId @ ''/related'')
                 (Some \<lparr>params = ps\<rparr>) (net w))
            = Normal (Fulfilled Z)
          \<longrightarrow> fst (related (Some incidentId) ps w) = Normal (Fulfilled Z))"
  using assms by (simp add: list_delegates get_delegates related_delegates http_get_result)

theorem operations_return_transport_result_witness:
  "''ABCD1234'' \<noteq> []
   \<and> fst (http (self world0) ''/data/v1/incidents'' (Some \<lparr>params = Some [(''status'', ''open'')]\<rparr>)
            (net world0))
       = Normal (Fulfilled (''/data/v1/incidents'', Some \<lparr>params = Some [(''status'', ''open'')]\<rparr>))
   \<and> fst (list (Some [(''status'', ''open'')]) world0)
       = Normal (Fulfilled (''/data/v1/incidents'', Some \<lparr>params = Some [(''status'', ''open'')]\<rparr>))
   \<and> fst (http (self world0) ''/data/v1/incidents/ABCD1234'' None (net world0))
       = Normal (Fulfilled (''/data/v1/incidents/ABCD1234'', None))
   \<and> fst (get (Some ''ABCD1234'') world0)
       = Normal (Fulfilled (''/data/v1/incidents/ABCD1234'', None))
   \<and> fst (http (self world0) ''/data/v1/incidents/ABCD1234/related''
            (Some \<lparr>params = Some [(''status'', ''open'')]\<rparr>) (net world0))
       = Normal (Fulfilled (''/data/v1/incidents/ABCD1234/related'',
                            Some \<lparr>params = Some [(''status'', ''open'')]\<rparr>))
   \<and> fst (related (Some ''ABCD1234'') (Some [(''status'', ''open'')]) world0)
       = Normal (Fulfilled (''/data/v1/incidents/ABCD1234/related'',
                            Some \<lparr>params = Some [(''status'', ''open'')]\<rparr>))"
  using operations_return_transport_result
    [of "''ABCD1234''" world0 "Some [(''status'', ''open'')]"
        "(''/data/v1/incidents'', Some \<lparr>params = Some [(''status'', ''open'')]\<rparr>)"
        "(''/data/v1/incidents/ABCD1234'', None)"
        "(''/data/v1/incidents/ABCD1234/related'', Some \<lparr>params = Some [(''status'', ''open'')]\<rparr>)"]
  by (simp add: world0_def stub_def)

section \<open>Failures of the transport\<close>

text \<open>
  C6. Whatever the transport fails with, thrown from the call or as the reason of a
  rejected promise, each of \<open>list\<close>, \<open>get\<close> and \<open>related\<close> (the last two with a non-empty
  identifier) ends the same way with the same value: a throw stays a throw of \<open>x\<close>, a
  rejection stays a rejection with \<open>x\<close>. The failed call is not repeated: the trace has
  one new invocation, and the transport's state is the one that call left.
\<close>

theorem transport_failure_propagates:
  assumes "incidentId \<noteq> []"
  shows "(fst (http (self w) ''/data/v1/incidents'' (Some \<lparr>params = ps\<rparr>) (net w)) = Throw x
          \<longrightarrow> fst (list ps w) = Throw x)
       \<and> (fst (http (self w) ''/data/v1/incidents'' (Some \<lparr>params = ps\<rparr>) (net w))
            = Normal (Rejected x)
          \<longrightarrow> fst (list ps w) = Normal (Rejected x))
       \<and> (fst (http (self w) (''/data/v1/incidents/'' @ incidentId) None (net w)) = Throw x
          \<longrightarrow> fst (get (Some incidentId) w) = Throw x)
       \<and> (fst (http (self w) (''/data/v1/incidents/'' @ incidentId) None (net w))
            = Normal (Rejected x)
          \<longrightarrow> fst (get (Some incidentId) w) = Normal (Rejected x))
       \<and> (fst (http (self w) (''/data/v1/incidents/'' @ incidentId @ ''/related'')
                 (Some \<lparr>params = ps\<rparr>) (net w)) = Throw x
          \<longrightarrow> fst (related (Some incidentId) ps w) = Throw x)
       \<and> (fst (http (self w) (''/data/v1/incidents/'' @ incidentId @ ''/related'')
                 (Some \<lparr>params = ps\<rparr>) (net w)) = Normal (Rejected x)
          \<longrightarrow> fst (related (Some incidentId) ps w) = Normal (Rejected x))
       \<and> length (trace (snd (list ps w))) = Suc (length (trace w))
       \<and> length (trace (snd (get (Some incidentId) w))) = Suc (length (trace w))
       \<and> length (trace (snd (related (Some incidentId) ps w))) = Suc (length (trace w))
       \<and> net (snd (list ps w))
           = snd (http (self w) ''/data/v1/incidents'' (Some \<lparr>params = ps\<rparr>) (net w))
       \<and> net (snd (get (Some incidentId) w))
           = snd (http (self w) (''/data/v1/incidents/'' @ incidentId) None (net w))
       \<and> net (snd (related (Some incidentId) ps w))
           = snd (http (self w) (''/data/v1/incidents/'' @ incidentId @ ''/related'')
                   (Some \<lparr>params = ps\<rparr>) (net w))"
  using assms
  by (simp add: list_delegates get_delegates related_delegates
        http_get_result http_get_trace http_get_net)

theorem transport_failure_propagates_witness:
  "''ABCD1234'' \<noteq> []
   \<and> fst (http (self (world0\<lparr>net := 1\<rparr>)) ''/data/v1/incidents'' (Some \<lparr>params = None\<rparr>) 1)
       = Normal (Rejected (Other 503))
   \<and> fst (list None (world0\<lparr>net := 1\<rparr>)) = Normal (Rejected (Other 503))
   \<and> fst (http (self (world0\<lparr>net := 1\<rparr>)) ''/data/v1/incidents/ABCD1234'' None 1)
       = Normal (Rejected (Other 503))
   \<and> fst (get (Some ''ABCD1234'') (world0\<lparr>net := 1\<rparr>)) = Normal (Rejected (Other 503))
   \<and> fst (http (self (world0\<lparr>net := 1\<rparr>)) ''/data/v1/incidents/ABCD1234/related''
            (Some \<lparr>params = None\<rparr>) 1)
       = Normal (Rejected (Other 503))
   \<and> fst (related (Some ''ABCD1234'') None (world0\<lparr>net := 1\<rparr>)) = Normal (Rejected (Other 503))
   \<and> fst (http (self (world0\<lparr>net := 2\<rparr>)) ''/data/v1/incidents'' (Some \<lparr>params = None\<rparr>) 2)
       = Throw (Error ''socket hang up'')
   \<and> fst (list None (world0\<lparr>net := 2\<rparr>)) = Throw (Error ''socket hang up'')
   \<and> fst (http (self (world0\<lparr>net := 2\<rparr>)) ''/data/v1/incidents/ABCD1234'' None 2)
       = Throw (Error ''socket hang up'')
   \<and> fst (get (Some ''ABCD1234'') (world0\<lparr>net := 2\<rparr>)) = Throw (Error ''socket hang up'')
   \<and> fst (http (self (world0\<lparr>net := 2\<rparr>)) ''/data/v1/incidents/ABCD1234/related''
            (Some \<lparr>params = None\<rparr>) 2)
       = Throw (Error ''socket hang up'')
   \<and> fst (related (Some ''ABCD1234'') None (world0\<lparr>net := 2\<rparr>)) = Throw (Error ''socket hang up'')
   \<and> length (trace (snd (get (Some ''ABCD1234'') (world0\<lparr>net := 2\<rparr>)))) = 1
   \<and> net (snd (get (Some ''ABCD1234'') (world0\<lparr>net := 2\<rparr>))) = 3"
  using
    transport_failure_propagates
      [of "''ABCD1234''" "world0\<lparr>net := 1\<rparr>" None "Other 503"]
    transport_failure_propagates
      [of "''ABCD1234''" "world0\<lparr>net := 2\<rparr>" None "Error ''socket hang up''"]
  by (simp add: world0_def stub_def)

section \<open>The message of the validation error\<close>

text \<open>
  C7. When the identifier is empty or missing, the error thrown by \<open>get\<close> and the error
  thrown by \<open>related\<close> carry the messages of the source. Both messages name the argument
  (\<open>incident id\<close>), each names what its operation was asked for (\<open>incident details\<close>,
  \<open>related incidents\<close>), and the two errors differ, so the error tells which of the two
  operations was called.
\<close>

theorem invalid_id_message_names_operation_and_argument:
  assumes "js_not incidentId" and "js_not incidentId'"
  shows "(\<exists>m. fst (get incidentId w) = Throw (Error m)
              \<and> sublist ''incident id'' m \<and> sublist ''incident details'' m)
       \<and> (\<exists>m. fst (related incidentId' ps w') = Throw (Error m)
              \<and> sublist ''incident id'' m \<and> sublist ''related incidents'' m)
       \<and> fst (get incidentId w) \<noteq> fst (related incidentId' ps w')"
proof -
  have g: "fst (get incidentId w)
             = Throw (Error ''An incident id is required for incident details.'')"
    using assms(1) by (simp add: get_invalid)
  have r: "fst (related incidentId' ps w')
             = Throw (Error ''An incident id is required for related incidents.'')"
    using assms(2) by (simp add: related_invalid)
  have g1: "sublist ''incident id'' ''An incident id is required for incident details.''"
    by code_simp
  have g2: "sublist ''incident details'' ''An incident id is required for incident details.''"
    by code_simp
  have r1: "sublist ''incident id'' ''An incident id is required for related incidents.''"
    by code_simp
  have r2: "sublist ''related incidents'' ''An incident id is required for related incidents.''"
    by code_simp
  show ?thesis
    unfolding g r using g1 g2 r1 r2 by simp
qed

theorem invalid_id_message_names_operation_and_argument_witness:
  "js_not None \<and> js_not (Some [])
   \<and> fst (get None world0) = Throw (Error ''An incident id is required for incident details.'')
   \<and> fst (related (Some []) None world0)
       = Throw (Error ''An incident id is required for related incidents.'')
   \<and> fst (get None world0) \<noteq> fst (related (Some []) None world0)"
proof -
  note t = invalid_id_message_names_operation_and_argument
             [of None "Some []" world0 None world0]
  have "fst (get None world0) \<noteq> fst (related (Some []) None world0)"
    using t by simp
  then show ?thesis
    by (simp add: get_def related_def)
qed

section \<open>Identifiers that are not empty\<close>

text \<open>
  C8. The only identifiers that \<open>get\<close> and \<open>related\<close> turn down are the empty and the
  missing one. Every non-empty string, whatever its characters (a slash, dots, a question
  mark), reaches the transport: the trace has one new invocation, and its path holds the
  identifier character for character after \<open>/data/v1/incidents/\<close>.
\<close>

theorem only_emptiness_is_checked:
  assumes "incidentId \<noteq> []"
  shows "length (trace (snd (get (Some incidentId) w))) = Suc (length (trace w))
       \<and> path (last (trace (snd (get (Some incidentId) w))))
           = ''/data/v1/incidents/'' @ incidentId
       \<and> length (trace (snd (related (Some incidentId) ps w))) = Suc (length (trace w))
       \<and> path (last (trace (snd (related (Some incidentId) ps w))))
           = ''/data/v1/incidents/'' @ incidentId @ ''/related''"
  using assms by (simp add: get_delegates related_delegates http_get_trace)

theorem only_emptiness_is_checked_witness:
  "''../a/b?c=d'' \<noteq> []
   \<and> length (trace (snd (get (Some ''../a/b?c=d'') world0))) = 1
   \<and> path (last (trace (snd (get (Some ''../a/b?c=d'') world0))))
       = ''/data/v1/incidents/../a/b?c=d''
   \<and> length (trace (snd (related (Some ''../a/b?c=d'') None world0))) = 1
   \<and> path (last (trace (snd (related (Some ''../a/b?c=d'') None world0))))
       = ''/data/v1/incidents/../a/b?c=d/related''"
  using only_emptiness_is_checked [of "''../a/b?c=d''" world0 None]
  by (simp add: world0_def)

section \<open>Statelessness\<close>

text \<open>
  C9. No operation changes the component: after \<open>list\<close>, \<open>get\<close> or \<open>related\<close> the world
  holds the same component, with the same reference to the transport. The invocations that
  an operation adds to the trace depend on its arguments only: in any two worlds, whatever
  was called before and whatever state the transport is in, the same arguments add the
  same invocations.
\<close>

theorem operations_keep_component_and_repeat_invocations:
  "self (snd (list ps w)) = self w
   \<and> self (snd (get incidentId w)) = self w
   \<and> self (snd (related incidentId ps w)) = self w
   \<and> drop (length (trace w)) (trace (snd (list ps w)))
       = drop (length (trace w')) (trace (snd (list ps w')))
   \<and> drop (length (trace w)) (trace (snd (get incidentId w)))
       = drop (length (trace w')) (trace (snd (get incidentId w')))
   \<and> drop (length (trace w)) (trace (snd (related incidentId ps w)))
       = drop (length (trace w')) (trace (snd (related incidentId ps w')))"
  by (simp add: list_def get_def related_def http_get_self http_get_trace)

theorem operations_keep_component_and_repeat_invocations_witness:
  "self (snd (get (Some ''ABCD1234'') world0)) = self world0
   \<and> drop (length (trace world0)) (trace (snd (get (Some ''ABCD1234'') world0)))
       = [\<lparr>path = ''/data/v1/incidents/ABCD1234'', opts = None\<rparr>]
   \<and> drop (length (trace (snd (list None world0))))
        (trace (snd (get (Some ''ABCD1234'') (snd (list None world0)))))
       = [\<lparr>path = ''/data/v1/incidents/ABCD1234'', opts = None\<rparr>]"
proof -
  have one: "drop (length (trace world0)) (trace (snd (get (Some ''ABCD1234'') world0)))
               = [\<lparr>path = ''/data/v1/incidents/ABCD1234'', opts = None\<rparr>]"
    by (simp add: get_delegates http_get_trace)
  show ?thesis
    using operations_keep_component_and_repeat_invocations
            [of None world0 "Some ''ABCD1234''" "snd (list None world0)"]
          one
    by simp
qed

section \<open>The second argument of the transport\<close>

text \<open>
  C10. \<open>get\<close> calls the transport with the path alone: the invocation has no second
  argument. \<open>list\<close> and \<open>related\<close> always pass an options object, also when the caller
  gives no \<open>params\<close>: the object's \<open>params\<close> is then undefined.
\<close>

theorem get_has_no_options_list_and_related_always:
  assumes "incidentId \<noteq> []"
  shows "opts (last (trace (snd (get (Some incidentId) w)))) = None
       \<and> opts (last (trace (snd (list ps w)))) = Some \<lparr>params = ps\<rparr>
       \<and> opts (last (trace (snd (related (Some incidentId) ps w)))) = Some \<lparr>params = ps\<rparr>
       \<and> opts (last (trace (snd (list None w)))) = Some \<lparr>params = None\<rparr>
       \<and> opts (last (trace (snd (related (Some incidentId) None w)))) = Some \<lparr>params = None\<rparr>"
  using assms by (simp add: list_delegates get_delegates related_delegates http_get_trace)

theorem get_has_no_options_list_and_related_always_witness:
  "''ABCD1234'' \<noteq> []
   \<and> opts (last (trace (snd (get (Some ''ABCD1234'') world0)))) = None
   \<and> opts (last (trace (snd (related (Some ''ABCD1234'') None world0))))
       = Some \<lparr>params = None\<rparr>
   \<and> opts (last (trace (snd (list None world0)))) = Some \<lparr>params = None\<rparr>"
  using get_has_no_options_list_and_related_always [of "''ABCD1234''" world0 None]
  by simp

end
